theory Spec2Isabelle
  imports Complex_Main
begin

text \<open>
  A shallow embedding of three parts of rocBLAS: the 64-bit shim of hpmv, which chunks a
  64-bit batch count for the 32-bit launcher; the C interface of trtri_strided_batched,
  which validates, answers size queries, selects a kernel by problem size and turns
  exceptions into status codes; and the test harness templates of spr2_batched, nrm2 and
  dot. What the sources call and do not hold (kernel launchers, logging, the routines under
  test, the checking macros) is a parameter of the model, given by what it returns.
\<close>

section \<open>Status codes and enumerations\<close>

text \<open>
  The status codes and enumerations of the library's public C interface. The sources name
  \<open>rocblas_status_success\<close>, \<open>invalid_handle\<close>, \<open>invalid_pointer\<close>, \<open>invalid_size\<close>,
  \<open>memory_error\<close>, \<open>size_unchanged\<close>, \<open>invalid_value\<close> and \<open>continue\<close>; the other
  constructors stand for the remaining codes an opaque callee may hand back.
\<close>

datatype rocblas_status =
    rocblas_status_success
  | rocblas_status_invalid_handle
  | rocblas_status_not_implemented
  | rocblas_status_invalid_pointer
  | rocblas_status_invalid_size
  | rocblas_status_memory_error
  | rocblas_status_internal_error
  | rocblas_status_perf_degraded
  | rocblas_status_size_query_mismatch
  | rocblas_status_size_increased
  | rocblas_status_size_unchanged
  | rocblas_status_invalid_value
  | rocblas_status_continue
  | rocblas_status_check_numerics_fail

datatype rocblas_fill = rocblas_fill_upper | rocblas_fill_lower | rocblas_fill_full

datatype rocblas_diagonal = rocblas_diagonal_non_unit | rocblas_diagonal_unit

datatype rocblas_pointer_mode = rocblas_pointer_mode_host | rocblas_pointer_mode_device

section \<open>The 64-bit shim of hpmv: \<open>rocblas_hpmv_launcher_64\<close>\<close>

text \<open>
  Source: \<open>library/src/src64/blas2/rocblas_hpmv_kernels_64.cpp\<close>. The values of type
  \<open>int64_t\<close>, \<open>rocblas_stride\<close> and \<open>int32_t\<close> are integers of HOL, and every operation
  of the source that can leave its type's range is written with its two's complement
  wrap-around: the addition \<open>b_base += c_i64_grid_YZ_chunk\<close>, the subtraction
  \<open>batch_count_64 - b_base\<close>, and the two conversions to 32 bits.
\<close>

definition c_i64_max :: int where
  "c_i64_max = 9223372036854775807"

definition int64_wrap :: "int \<Rightarrow> int" where
  "int64_wrap v = (v + 9223372036854775808) mod 18446744073709551616 - 9223372036854775808"

definition int32_cast :: "int \<Rightarrow> int" where
  "int32_cast v = (v + 2147483648) mod 4294967296 - 2147483648"

text \<open>
  Modelled from the spec: \<open>c_i32_max\<close> is declared in \<open>int64_helpers.hpp\<close>, which is not
  among the sources; it is the largest value of \<open>int32_t\<close>.
\<close>

definition c_i32_max :: int where
  "c_i32_max = 2147483647"

text \<open>
  Modelled from the spec: \<open>adjust_ptr_batch\<close> is declared in \<open>int64_helpers.hpp\<close>, which is
  not among the sources; the spec has the shim "advancing per-batch pointers by stride". A
  pointer is an address counted in elements.
\<close>

definition adjust_ptr_batch :: "int \<Rightarrow> int \<Rightarrow> int \<Rightarrow> int" where
  "adjust_ptr_batch ptr block stride = ptr + block * stride"

text \<open>
  The argument list shared by \<open>rocblas_hpmv_launcher_64\<close> and the 32-bit
  \<open>rocblas_hpmv_launcher\<close>, one field per parameter in the order of the source. For the
  shim, \<open>hpmv_n\<close>, \<open>hpmv_incx\<close>, \<open>hpmv_incy\<close> and \<open>hpmv_batch_count\<close> are its parameters
  \<open>n_64\<close>, \<open>incx_64\<close>, \<open>incy_64\<close> and \<open>batch_count_64\<close>.
\<close>

record ('h, 's) hpmv_args =
  hpmv_handle :: 'h
  hpmv_uplo :: rocblas_fill
  hpmv_n :: int
  hpmv_alpha :: 's
  hpmv_AP :: int
  hpmv_offseta :: int
  hpmv_strideA :: int
  hpmv_x :: int
  hpmv_offsetx :: int
  hpmv_incx :: int
  hpmv_stridex :: int
  hpmv_beta :: 's
  hpmv_y :: int
  hpmv_offsety :: int
  hpmv_incy :: int
  hpmv_stridey :: int
  hpmv_batch_count :: int

text \<open>
  The 32-bit launcher is not among the sources: it is a parameter, a function of its
  arguments and of the state \<open>'d\<close> of the device, which it returns updated with its status.
\<close>

type_synonym ('h, 's, 'd) hpmv_launcher =
  "('h, 's) hpmv_args \<Rightarrow> 'd \<Rightarrow> rocblas_status \<times> 'd"

text \<open>The arguments of the call the loop body makes at the chunk base \<open>b_base\<close>.\<close>

definition hpmv_chunk_call :: "int \<Rightarrow> ('h, 's) hpmv_args \<Rightarrow> int \<Rightarrow> ('h, 's) hpmv_args" where
  "hpmv_chunk_call c_i64_grid_YZ_chunk a b_base =
     (let x_ptr = adjust_ptr_batch (hpmv_x a) b_base (hpmv_stridex a);
          y_ptr = adjust_ptr_batch (hpmv_y a) b_base (hpmv_stridey a);
          A_ptr = adjust_ptr_batch (hpmv_AP a) b_base (hpmv_strideA a);
          batch_count32 =
            int32_cast (min (int64_wrap (hpmv_batch_count a - b_base)) c_i64_grid_YZ_chunk);
          shiftA = hpmv_offseta a
      in a\<lparr>hpmv_n := int32_cast (hpmv_n a), hpmv_AP := A_ptr, hpmv_offseta := shiftA,
            hpmv_x := x_ptr, hpmv_y := y_ptr, hpmv_batch_count := batch_count32\<rparr>)"

text \<open>
  The loop \<open>for(int64_t b_base = 0; b_base < batch_count_64; b_base += c_i64_grid_YZ_chunk)\<close>.
  The constant \<open>c_i64_grid_YZ_chunk\<close> is declared outside the sources and is the first
  parameter. With the wrap-around the loop need not end, so not returning is the value
  \<open>None\<close>.
\<close>

partial_function (option) hpmv_batch_loop ::
  "int \<Rightarrow> ('h, 's, 'd) hpmv_launcher \<Rightarrow> ('h, 's) hpmv_args \<Rightarrow> int \<Rightarrow> 'd
     \<Rightarrow> (rocblas_status \<times> 'd) option" where
  "hpmv_batch_loop c_i64_grid_YZ_chunk launcher a b_base dev =
     (if b_base < hpmv_batch_count a then
        (let r = launcher (hpmv_chunk_call c_i64_grid_YZ_chunk a b_base) dev in
         if fst r \<noteq> rocblas_status_success then Some r
         else hpmv_batch_loop c_i64_grid_YZ_chunk launcher a
                (int64_wrap (b_base + c_i64_grid_YZ_chunk)) (snd r))
      else Some (rocblas_status_success, dev))"

declare hpmv_batch_loop.simps [code]

definition rocblas_hpmv_launcher_64 ::
  "int \<Rightarrow> ('h, 's, 'd) hpmv_launcher \<Rightarrow> ('h, 's) hpmv_args \<Rightarrow> 'd
     \<Rightarrow> (rocblas_status \<times> 'd) option" where
  "rocblas_hpmv_launcher_64 c_i64_grid_YZ_chunk launcher a dev =
     (if hpmv_n a = 0 \<or> hpmv_batch_count a = 0 then Some (rocblas_status_success, dev)
      else if hpmv_n a > c_i32_max then Some (rocblas_status_invalid_size, dev)
      else hpmv_batch_loop c_i64_grid_YZ_chunk launcher a 0 dev)"

subsection \<open>The chunked iteration, as the specification words it\<close>

text \<open>
  The chunk bases \<open>0, chunk, 2 * chunk, ...\<close> below \<open>batch_count_64\<close>, in increasing order.
\<close>

definition hpmv_chunk_bases :: "int \<Rightarrow> int \<Rightarrow> int list" where
  "hpmv_chunk_bases chunk bc = map (\<lambda>k. int k * chunk) [0..<nat ((bc + chunk - 1) div chunk)]"

text \<open>
  The call for one chunk: the three base pointers advanced by \<open>b_base\<close> times their
  strides, \<open>min (batch_count_64 - b_base) chunk\<close> batches, everything else as given.
\<close>

definition hpmv_chunk_spec :: "int \<Rightarrow> ('h, 's) hpmv_args \<Rightarrow> int \<Rightarrow> ('h, 's) hpmv_args" where
  "hpmv_chunk_spec chunk a b_base =
     a\<lparr>hpmv_AP := hpmv_AP a + b_base * hpmv_strideA a,
       hpmv_x := hpmv_x a + b_base * hpmv_stridex a,
       hpmv_y := hpmv_y a + b_base * hpmv_stridey a,
       hpmv_batch_count := min (hpmv_batch_count a - b_base) chunk\<rparr>"

text \<open>Calling the 32-bit launcher chunk by chunk, stopping at the first status that is not success.\<close>

fun run_chunks ::
  "('h, 's, 'd) hpmv_launcher \<Rightarrow> ('h, 's) hpmv_args list \<Rightarrow> 'd \<Rightarrow> rocblas_status \<times> 'd" where
  "run_chunks launcher [] dev = (rocblas_status_success, dev)"
| "run_chunks launcher (c # cs) dev =
     (let r = launcher c dev in
      if fst r \<noteq> rocblas_status_success then r else run_chunks launcher cs (snd r))"

definition hpmv_launcher_chunked ::
  "int \<Rightarrow> ('h, 's, 'd) hpmv_launcher \<Rightarrow> ('h, 's) hpmv_args \<Rightarrow> 'd \<Rightarrow> rocblas_status \<times> 'd" where
  "hpmv_launcher_chunked chunk launcher a dev =
     run_chunks launcher
       (map (hpmv_chunk_spec chunk a) (hpmv_chunk_bases chunk (hpmv_batch_count a))) dev"

subsection \<open>Launchers and arguments for the examples\<close>

text \<open>
  A launcher whose status depends on its arguments alone and whose device state is the list
  of the calls made so far.
\<close>

definition hpmv_traced_launcher ::
  "(('h, 's) hpmv_args \<Rightarrow> rocblas_status) \<Rightarrow> ('h, 's, ('h, 's) hpmv_args list) hpmv_launcher" where
  "hpmv_traced_launcher f c calls = (f c, calls @ [c])"

definition hpmv_always_success :: "('h, 's, 'd) hpmv_launcher" where
  "hpmv_always_success c dev = (rocblas_status_success, dev)"

definition hpmv_example_args :: "int \<Rightarrow> int \<Rightarrow> (unit, int) hpmv_args" where
  "hpmv_example_args n_64 batch_count_64 =
     \<lparr>hpmv_handle = (), hpmv_uplo = rocblas_fill_upper, hpmv_n = n_64, hpmv_alpha = 1,
      hpmv_AP = 1000, hpmv_offseta = 0, hpmv_strideA = 10, hpmv_x = 2000, hpmv_offsetx = 0,
      hpmv_incx = 1, hpmv_stridex = 4, hpmv_beta = 0, hpmv_y = 3000, hpmv_offsety = 0,
      hpmv_incy = 1, hpmv_stridey = 4, hpmv_batch_count = batch_count_64\<rparr>"

text \<open>A launcher that fails with a memory error from the second chunk on.\<close>

definition hpmv_fail_late :: "(unit, int) hpmv_args \<Rightarrow> rocblas_status" where
  "hpmv_fail_late c =
     (if hpmv_AP c > 1000 then rocblas_status_memory_error else rocblas_status_success)"

section \<open>The C interface of trtri: \<open>rocblas_trtri_strided_batched\<close>\<close>

text \<open>
  Source: \<open>library/src/blas3/rocblas_trtri_strided_batched.cpp\<close>. The template parameter
  \<open>T\<close> is one of the four element types of the C entry points.
\<close>

datatype trtri_type = T_float | T_double | T_float_complex | T_double_complex

fun rocblas_trtri_name :: "trtri_type \<Rightarrow> string" where
  "rocblas_trtri_name T_float = ''rocblas_strtri_strided_batched''"
| "rocblas_trtri_name T_double = ''rocblas_dtrtri_strided_batched''"
| "rocblas_trtri_name T_float_complex = ''rocblas_ctrtri_strided_batched''"
| "rocblas_trtri_name T_double_complex = ''rocblas_ztrtri_strided_batched''"

text \<open>\<open>sizeof(T)\<close>: a complex number is a pair of floating-point numbers.\<close>

fun sizeof_T :: "trtri_type \<Rightarrow> nat" where
  "sizeof_T T_float = 4"
| "sizeof_T T_double = 8"
| "sizeof_T T_float_complex = 8"
| "sizeof_T T_double_complex = 16"

text \<open>
  The bits of \<open>handle->layer_mode\<close> that the source tests; the mask is the set of the bits
  that are on.
\<close>

datatype rocblas_layer_mode =
    rocblas_layer_mode_log_trace
  | rocblas_layer_mode_log_bench
  | rocblas_layer_mode_log_profile

text \<open>
  What the source reads of a handle. The class is declared in \<open>handle.hpp\<close>, which is not
  among the sources, so its two member functions are fields: each is given by what it
  returns, a value or an exception of type \<open>'e\<close>. \<open>device_malloc\<close> returns the workspace,
  \<open>None\<close> when the allocation failed (the object tests false).
\<close>

record ('e, 'p) rocblas_handle_obj =
  is_device_memory_size_query :: bool
  layer_mode :: "rocblas_layer_mode set"
  set_optimal_device_memory_size :: "nat \<Rightarrow> 'e + rocblas_status"
  device_malloc :: "nat \<Rightarrow> 'e + 'p option"

text \<open>A \<open>rocblas_handle\<close> is a pointer: \<open>None\<close> is the null handle.\<close>

type_synonym ('e, 'p) rocblas_handle = "('e, 'p) rocblas_handle_obj option"

text \<open>
  The arguments of the C interface after the handle, in the order of the source:
  \<open>uplo, diag, n, A, lda, bsa, invA, ldinvA, bsinvA, batch_count\<close>.
\<close>

datatype 'p trtri_args =
  Trtri_args rocblas_fill rocblas_diagonal int 'p int int 'p int int int

text \<open>
  The arguments of a kernel launcher after the handle, in the order of the source:
  \<open>uplo, diag, n, A, 0, lda, bsa, 0, invA, 0, ldinvA, bsinvA, 0, batch_count, 1\<close>.
\<close>

datatype 'p trtri_launch =
  Trtri_launch rocblas_fill rocblas_diagonal int 'p int int int int 'p int int int int int int

text \<open>
  The functions the implementation calls and the sources do not hold (\<open>logging.hpp\<close>,
  \<open>rocblas_trtri.hpp\<close>, \<open>utility.hpp\<close>): each is a parameter, given by what it returns, a
  value or an exception. \<open>rocblas_internal_trtri_temp_size\<close> takes \<open>NB\<close>, \<open>n\<close> and
  \<open>batch_count\<close>; the launchers take \<open>NB\<close> and \<open>T\<close> first.
\<close>

record ('e, 'p) trtri_env =
  rocblas_internal_trtri_temp_size :: "int \<Rightarrow> int \<Rightarrow> int \<Rightarrow> nat"
  log_trace :: "('e, 'p) rocblas_handle_obj \<Rightarrow> string \<Rightarrow> 'p trtri_args \<Rightarrow> 'e + unit"
  log_profile :: "('e, 'p) rocblas_handle_obj \<Rightarrow> string \<Rightarrow> 'p trtri_args \<Rightarrow> 'e + unit"
  rocblas_trtri_arg_check ::
    "('e, 'p) rocblas_handle_obj \<Rightarrow> rocblas_fill \<Rightarrow> rocblas_diagonal \<Rightarrow> int \<Rightarrow> 'p \<Rightarrow> int
       \<Rightarrow> 'p \<Rightarrow> int \<Rightarrow> int \<Rightarrow> 'e + rocblas_status"
  rocblas_trtri_small ::
    "int \<Rightarrow> trtri_type \<Rightarrow> ('e, 'p) rocblas_handle_obj \<Rightarrow> 'p trtri_launch
       \<Rightarrow> 'e + rocblas_status"
  rocblas_trtri_large ::
    "int \<Rightarrow> trtri_type \<Rightarrow> ('e, 'p) rocblas_handle_obj \<Rightarrow> 'p trtri_launch \<Rightarrow> 'p
       \<Rightarrow> 'e + rocblas_status"
  exception_to_rocblas_status :: "'e \<Rightarrow> rocblas_status"

text \<open>The calls a run makes, in order.\<close>

datatype 'p trtri_event =
    Ev_log_trace string "'p trtri_args"
  | Ev_log_profile string "'p trtri_args"
  | Ev_arg_check
  | Ev_set_optimal_device_memory_size nat
  | Ev_device_malloc nat
  | Ev_trtri_small "'p trtri_launch"
  | Ev_trtri_large "'p trtri_launch" 'p

text \<open>
  A run ends with a value or with an exception, and has made its calls: a call that throws
  ends the run, and the calls up to it stay made.
\<close>

type_synonym ('e, 'p, 'a) trtri_run = "('e + 'a) \<times> 'p trtri_event list"

definition trtri_then ::
  "('e, 'p, 'a) trtri_run \<Rightarrow> ('a \<Rightarrow> ('e, 'p, 'b) trtri_run) \<Rightarrow> ('e, 'p, 'b) trtri_run" where
  "trtri_then m k =
     (case fst m of
        Inl e \<Rightarrow> (Inl e, snd m)
      | Inr v \<Rightarrow> (let r = k v in (fst r, snd m @ snd r)))"

text \<open>\<open>size_t\<close> is 64 bits wide and its multiplication wraps around.\<close>

definition size_t_mult :: "nat \<Rightarrow> nat \<Rightarrow> nat" where
  "size_t_mult a b = (a * b) mod 18446744073709551616"

definition rocblas_trtri_strided_batched_impl ::
  "('e, 'p) trtri_env \<Rightarrow> int \<Rightarrow> trtri_type \<Rightarrow> ('e, 'p) rocblas_handle \<Rightarrow> rocblas_fill
     \<Rightarrow> rocblas_diagonal \<Rightarrow> int \<Rightarrow> 'p \<Rightarrow> int \<Rightarrow> int \<Rightarrow> 'p \<Rightarrow> int \<Rightarrow> int \<Rightarrow> int
     \<Rightarrow> ('e, 'p, rocblas_status) trtri_run" where
  "rocblas_trtri_strided_batched_impl env NB T handle uplo diag n A lda bsa invA ldinvA bsinvA
     batch_count =
     (case handle of
        None \<Rightarrow> (Inr rocblas_status_invalid_handle, [])
      | Some h \<Rightarrow>
          (let size = size_t_mult (rocblas_internal_trtri_temp_size env NB n batch_count)
                        (sizeof_T T)
           in
           if is_device_memory_size_query h then
             (if n \<le> NB \<or> batch_count = 0 then (Inr rocblas_status_size_unchanged, [])
              else (set_optimal_device_memory_size h size,
                    [Ev_set_optimal_device_memory_size size]))
           else
             trtri_then
               (if rocblas_layer_mode_log_trace \<in> layer_mode h then
                  (log_trace env h (rocblas_trtri_name T)
                     (Trtri_args uplo diag n A lda bsa invA ldinvA bsinvA batch_count),
                   [Ev_log_trace (rocblas_trtri_name T)
                     (Trtri_args uplo diag n A lda bsa invA ldinvA bsinvA batch_count)])
                else (Inr (), []))
             (\<lambda>_. trtri_then
               (if rocblas_layer_mode_log_profile \<in> layer_mode h then
                  (log_profile env h (rocblas_trtri_name T)
                     (Trtri_args uplo diag n A lda bsa invA ldinvA bsinvA batch_count),
                   [Ev_log_profile (rocblas_trtri_name T)
                     (Trtri_args uplo diag n A lda bsa invA ldinvA bsinvA batch_count)])
                else (Inr (), []))
             (\<lambda>_. trtri_then
               (rocblas_trtri_arg_check env h uplo diag n A lda invA ldinvA batch_count,
                [Ev_arg_check])
             (\<lambda>arg_status.
               if arg_status \<noteq> rocblas_status_continue then (Inr arg_status, [])
               else if n \<le> NB then
                 (rocblas_trtri_small env NB T h
                    (Trtri_launch uplo diag n A 0 lda bsa 0 invA 0 ldinvA bsinvA 0 batch_count 1),
                  [Ev_trtri_small
                    (Trtri_launch uplo diag n A 0 lda bsa 0 invA 0 ldinvA bsinvA 0 batch_count 1)])
               else
                 trtri_then (device_malloc h size, [Ev_device_malloc size])
                 (\<lambda>w_C_tmp.
                   case w_C_tmp of
                     None \<Rightarrow> (Inr rocblas_status_memory_error, [])
                   | Some w \<Rightarrow>
                       (rocblas_trtri_large env NB T h
                          (Trtri_launch uplo diag n A 0 lda bsa 0 invA 0 ldinvA bsinvA 0
                             batch_count 1) w,
                        [Ev_trtri_large
                          (Trtri_launch uplo diag n A 0 lda bsa 0 invA 0 ldinvA bsinvA 0
                             batch_count 1) w])))))))"

text \<open>
  The function try block of a C entry point: \<open>catch(...)\<close> turns every exception of the
  body into the status \<open>exception_to_rocblas_status()\<close> gives for it.
\<close>

definition trtri_catch_all ::
  "('e, 'p) trtri_env \<Rightarrow> ('e, 'p, rocblas_status) trtri_run \<Rightarrow> ('e, 'p, rocblas_status) trtri_run"
  where
  "trtri_catch_all env body =
     (case fst body of
        Inl e \<Rightarrow> (Inr (exception_to_rocblas_status env e), snd body)
      | Inr status \<Rightarrow> (Inr status, snd body))"

definition rocblas_strtri_strided_batched ::
  "('e, 'p) trtri_env \<Rightarrow> ('e, 'p) rocblas_handle \<Rightarrow> rocblas_fill \<Rightarrow> rocblas_diagonal \<Rightarrow> int
     \<Rightarrow> 'p \<Rightarrow> int \<Rightarrow> int \<Rightarrow> 'p \<Rightarrow> int \<Rightarrow> int \<Rightarrow> int \<Rightarrow> ('e, 'p, rocblas_status) trtri_run"
  where
  "rocblas_strtri_strided_batched env handle uplo diag n A lda bsa invA ldinvA bsinvA
     batch_count =
     trtri_catch_all env
       (let NB = 16 in
        rocblas_trtri_strided_batched_impl env NB T_float handle uplo diag n A lda bsa invA
          ldinvA bsinvA batch_count)"

definition rocblas_dtrtri_strided_batched ::
  "('e, 'p) trtri_env \<Rightarrow> ('e, 'p) rocblas_handle \<Rightarrow> rocblas_fill \<Rightarrow> rocblas_diagonal \<Rightarrow> int
     \<Rightarrow> 'p \<Rightarrow> int \<Rightarrow> int \<Rightarrow> 'p \<Rightarrow> int \<Rightarrow> int \<Rightarrow> int \<Rightarrow> ('e, 'p, rocblas_status) trtri_run"
  where
  "rocblas_dtrtri_strided_batched env handle uplo diag n A lda bsa invA ldinvA bsinvA
     batch_count =
     trtri_catch_all env
       (let NB = 16 in
        rocblas_trtri_strided_batched_impl env NB T_double handle uplo diag n A lda bsa invA
          ldinvA bsinvA batch_count)"

definition rocblas_ctrtri_strided_batched ::
  "('e, 'p) trtri_env \<Rightarrow> ('e, 'p) rocblas_handle \<Rightarrow> rocblas_fill \<Rightarrow> rocblas_diagonal \<Rightarrow> int
     \<Rightarrow> 'p \<Rightarrow> int \<Rightarrow> int \<Rightarrow> 'p \<Rightarrow> int \<Rightarrow> int \<Rightarrow> int \<Rightarrow> ('e, 'p, rocblas_status) trtri_run"
  where
  "rocblas_ctrtri_strided_batched env handle uplo diag n A lda bsa invA ldinvA bsinvA
     batch_count =
     trtri_catch_all env
       (let NB = 16 in
        rocblas_trtri_strided_batched_impl env NB T_float_complex handle uplo diag n A lda bsa
          invA ldinvA bsinvA batch_count)"

definition rocblas_ztrtri_strided_batched ::
  "('e, 'p) trtri_env \<Rightarrow> ('e, 'p) rocblas_handle \<Rightarrow> rocblas_fill \<Rightarrow> rocblas_diagonal \<Rightarrow> int
     \<Rightarrow> 'p \<Rightarrow> int \<Rightarrow> int \<Rightarrow> 'p \<Rightarrow> int \<Rightarrow> int \<Rightarrow> int \<Rightarrow> ('e, 'p, rocblas_status) trtri_run"
  where
  "rocblas_ztrtri_strided_batched env handle uplo diag n A lda bsa invA ldinvA bsinvA
     batch_count =
     trtri_catch_all env
       (let NB = 16 in
        rocblas_trtri_strided_batched_impl env NB T_double_complex handle uplo diag n A lda bsa
          invA ldinvA bsinvA batch_count)"

subsection \<open>An environment and handles for the examples\<close>

text \<open>
  Exceptions are named by strings and pointers are addresses. The argument check of the
  example refuses a negative \<open>n\<close> and lets everything else continue; logging in profile
  mode throws.
\<close>

definition trtri_example_env :: "(string, int) trtri_env" where
  "trtri_example_env =
     \<lparr>rocblas_internal_trtri_temp_size = (\<lambda>NB n batch_count. nat (n * NB * batch_count)),
      log_trace = (\<lambda>h name args. Inr ()),
      log_profile = (\<lambda>h name args. Inl ''std::bad_alloc''),
      rocblas_trtri_arg_check = (\<lambda>h uplo diag n A lda invA ldinvA batch_count.
        Inr (if n < 0 then rocblas_status_invalid_size else rocblas_status_continue)),
      rocblas_trtri_small = (\<lambda>NB T h launch. Inr rocblas_status_success),
      rocblas_trtri_large = (\<lambda>NB T h launch w. Inr rocblas_status_success),
      exception_to_rocblas_status = (\<lambda>e.
        if e = ''std::bad_alloc'' then rocblas_status_memory_error
        else rocblas_status_internal_error)\<rparr>"

definition trtri_example_handle ::
  "bool \<Rightarrow> rocblas_layer_mode set \<Rightarrow> (string, int) rocblas_handle_obj" where
  "trtri_example_handle query mode =
     \<lparr>is_device_memory_size_query = query,
      layer_mode = mode,
      set_optimal_device_memory_size = (\<lambda>size. Inr rocblas_status_size_increased),
      device_malloc = (\<lambda>size. Inr (if size \<le> 4096 then Some 7000 else None))\<rparr>"

section \<open>The test harness templates\<close>

text \<open>
  Sources: \<open>clients/include/testing_nrm2.hpp\<close>, \<open>clients/include/blas1/testing_dot.hpp\<close>
  and the harness of \<open>spr2_batched\<close> (\<open>testing_spr2_batched\<close> and its \<open>_bad_arg\<close>). A
  harness is a sequence of statements wrapped in checking macros. The model of a harness
  gives the checks of a run in order, each with the values it compares. The macros and the
  checker are defined outside the sources: a failed check may end the run, so the list is
  the run as far as no failed check has ended it, and a run passes when every check on the
  list holds.
\<close>


text \<open>What a harness reads and sets of its \<open>rocblas_local_handle\<close>: the pointer mode.\<close>

record local_handle =
  handle_pointer_mode :: rocblas_pointer_mode

text \<open>
  Modelled from the spec: \<open>rocblas_set_pointer_mode\<close> is a function of the library that is
  not among the sources; the spec has the harness invoke the routine "under one or two
  pointer-mode configurations". The call sets the pointer mode of the handle and succeeds.
\<close>

definition rocblas_set_pointer_mode ::
  "local_handle \<Rightarrow> rocblas_pointer_mode \<Rightarrow> rocblas_status \<times> local_handle" where
  "rocblas_set_pointer_mode handle mode =
     (rocblas_status_success, handle\<lparr>handle_pointer_mode := mode\<rparr>)"

text \<open>The values of \<open>arg.api\<close> the harnesses compare with.\<close>

datatype rocblas_client_api = C_API | FORTRAN | C_64 | FORTRAN_64 | INTERNAL | INTERNAL_64

text \<open>
  The statements of a run. \<open>'c\<close> is a call of the routine under test with its arguments,
  \<open>'f\<close> a value the checker compares.
  \<^item> \<open>Check_hip_error s ok\<close>: \<open>CHECK_HIP_ERROR(s)\<close>, with whether \<open>s\<close> gave \<open>hipSuccess\<close>;
  \<^item> \<open>Check_device_allocation s ok\<close>: \<open>CHECK_DEVICE_ALLOCATION(s.memcheck())\<close>;
  \<^item> \<open>Check_set_pointer_mode mode st\<close>:
    \<open>CHECK_ROCBLAS_ERROR(rocblas_set_pointer_mode(handle, mode))\<close> with the status returned;
  \<^item> \<open>Check_rocblas_error c st\<close>: \<open>CHECK_ROCBLAS_ERROR(c)\<close> or \<open>DAPI_CHECK\<close> of the call
    \<open>c\<close>, with the status returned, which must be success;
  \<^item> \<open>Expect_rocblas_status c st expected\<close>: \<open>EXPECT_ROCBLAS_STATUS(c, expected)\<close> or
    \<open>DAPI_EXPECT(expected, ...)\<close>;
  \<^item> \<open>Unit_check_general cpu gpu\<close>: \<open>unit_check_general<T>(1, 1, 1, &cpu, &gpu)\<close>.
\<close>

datatype ('c, 'f) test_step =
    Check_hip_error string bool
  | Check_device_allocation string bool
  | Check_set_pointer_mode rocblas_pointer_mode rocblas_status
  | Check_rocblas_error 'c rocblas_status
  | Expect_rocblas_status 'c rocblas_status rocblas_status
  | Unit_check_general 'f 'f

text \<open>
  The checker is defined in \<open>unit.hpp\<close>, which is not among the sources: it is a parameter.
\<close>

record 'f checkers =
  unit_check_general :: "'f \<Rightarrow> 'f \<Rightarrow> bool"

fun check_holds :: "'f checkers \<Rightarrow> ('c, 'f) test_step \<Rightarrow> bool" where
  "check_holds ck (Check_hip_error s ok) = ok"
| "check_holds ck (Check_device_allocation s ok) = ok"
| "check_holds ck (Check_set_pointer_mode mode st) = (st = rocblas_status_success)"
| "check_holds ck (Check_rocblas_error c st) = (st = rocblas_status_success)"
| "check_holds ck (Expect_rocblas_status c st expected) = (st = expected)"
| "check_holds ck (Unit_check_general cpu gpu) = unit_check_general ck cpu gpu"

definition test_passes :: "'f checkers \<Rightarrow> ('c, 'f) test_step list \<Rightarrow> bool" where
  "test_passes ck steps = list_all (check_holds ck) steps"


subsection \<open>The harness of spr2_batched\<close>










subsection \<open>The bad-argument harness of nrm2\<close>





subsection \<open>The harness of dot and dotc\<close>










section \<open>The routines under test, modelled from the spec\<close>

text \<open>
  The sources hold the harnesses of \<open>spr2_batched\<close>, \<open>nrm2\<close> and \<open>dot\<close> but not the routines.
  Each routine is modelled as the spec describes a wrapper: it validates the handle and the
  arguments and then delegates to an internal launcher, which is a parameter. A modelled
  routine returns what the routine returns and the list of the launches it made: the empty
  list when the validation has answered, the one launch otherwise.
\<close>





subsection \<open>Environments for the examples\<close>












section \<open>Properties of \<open>rocblas_hpmv_launcher_64\<close>\<close>

subsection \<open>Arithmetic of the chunk count\<close>

lemma int64_wrap_id: "- 9223372036854775808 \<le> v \<Longrightarrow> v \<le> c_i64_max \<Longrightarrow> int64_wrap v = v"
  by (simp add: int64_wrap_def c_i64_max_def)

lemma int32_cast_id: "- 2147483648 \<le> v \<Longrightarrow> v \<le> c_i32_max \<Longrightarrow> int32_cast v = v"
  by (simp add: int32_cast_def c_i32_max_def)

lemma int64_wrap_range: "int64_wrap v \<le> c_i64_max"
proof -
  have "(v + 9223372036854775808) mod 18446744073709551616 < 18446744073709551616"
    by simp
  then show ?thesis unfolding int64_wrap_def c_i64_max_def by linarith
qed

lemma int64_wrap_even: "even (int64_wrap v) = even v"
  by (simp add: int64_wrap_def dvd_mod_iff)

lemma chunk_count_eq:
  assumes "0 < (chunk::int)"
  shows "(bc + chunk - 1) div chunk = (bc - 1) div chunk + 1"
proof -
  have "(bc + chunk - 1) = (bc - 1) + chunk" by simp
  then show ?thesis using assms by (metis div_add_self2 less_irrefl)
qed

lemma div_mult_bounds:
  assumes "0 < (c::int)"
  shows "a div c * c \<le> a" and "a < a div c * c + c"
proof -
  have e: "a div c * c + a mod c = a" by simp
  have "0 \<le> a mod c" "a mod c < c" using assms by simp_all
  with e show "a div c * c \<le> a" and "a < a div c * c + c" by linarith+
qed

lemma below_chunks:
  assumes "0 < chunk" "k < nat ((bc + chunk - 1) div chunk)"
  shows "int k * chunk < bc"
proof -
  have "int k \<le> (bc - 1) div chunk"
    using assms by (simp add: chunk_count_eq)
  then have "int k * chunk \<le> (bc - 1) div chunk * chunk"
    using assms(1) by (simp add: mult_right_mono)
  also have "\<dots> \<le> bc - 1" using div_mult_bounds(1) [OF assms(1)] .
  finally show ?thesis by simp
qed

lemma above_chunks:
  assumes "0 < chunk"
  shows "bc \<le> int (nat ((bc + chunk - 1) div chunk)) * chunk"
proof -
  let ?q = "(bc - 1) div chunk + 1"
  have "bc - 1 < (bc - 1) div chunk * chunk + chunk"
    using div_mult_bounds(2) [OF assms] .
  then have le: "bc \<le> ?q * chunk" by (simp add: algebra_simps)
  show ?thesis
  proof (cases "0 \<le> ?q")
    case True
    then show ?thesis using le assms by (simp add: chunk_count_eq)
  next
    case False
    then have "?q * chunk \<le> 0" using assms by (simp add: mult_le_0_iff)
    then have "bc \<le> 0" using le by linarith
    then show ?thesis using False assms by (simp add: chunk_count_eq)
  qed
qed

subsection \<open>The loop against the chunked iteration\<close>

lemma hpmv_chunk_call_eq:
  assumes "0 < chunk" "chunk \<le> c_i32_max" "1 \<le> hpmv_n a" "hpmv_n a \<le> c_i32_max"
    "0 \<le> b" "b < hpmv_batch_count a" "hpmv_batch_count a \<le> c_i64_max"
  shows "hpmv_chunk_call chunk a b = hpmv_chunk_spec chunk a b"
proof -
  have w: "int64_wrap (hpmv_batch_count a - b) = hpmv_batch_count a - b"
    using assms by (intro int64_wrap_id) auto
  have m: "int32_cast (min (hpmv_batch_count a - b) chunk) = min (hpmv_batch_count a - b) chunk"
    using assms by (intro int32_cast_id) auto
  have nn: "int32_cast (hpmv_n a) = hpmv_n a"
    using assms by (intro int32_cast_id) auto
  show ?thesis
    by (simp add: hpmv_chunk_call_def hpmv_chunk_spec_def adjust_ptr_batch_def w m nn)
qed

lemma hpmv_batch_loop_chunks:
  assumes "0 < chunk" "chunk \<le> c_i32_max" "1 \<le> hpmv_n a" "hpmv_n a \<le> c_i32_max"
    "m = nat ((hpmv_batch_count a + chunk - 1) div chunk)" "int m * chunk \<le> c_i64_max" "k \<le> m"
  shows "hpmv_batch_loop chunk launcher a (int k * chunk) dev =
         Some (run_chunks launcher
                (map (hpmv_chunk_spec chunk a) (map (\<lambda>k. int k * chunk) [k..<m])) dev)"
  using assms(7)
proof (induction "m - k" arbitrary: k dev)
  case 0
  then have "k = m" by simp
  then have "\<not> int k * chunk < hpmv_batch_count a"
    using above_chunks [OF assms(1), of "hpmv_batch_count a"] assms(5) by simp
  then show ?case using \<open>k = m\<close>
    by (subst hpmv_batch_loop.simps) simp
next
  case (Suc d)
  then have lt: "k < m" by simp
  then have b: "int k * chunk < hpmv_batch_count a"
    using below_chunks [OF assms(1), of k "hpmv_batch_count a"] assms(5) by simp
  have nonneg: "0 \<le> int k * chunk" using assms(1) by simp
  have "int (Suc k) * chunk \<le> int m * chunk"
    using lt assms(1) by (intro mult_right_mono) auto
  then have nx: "int k * chunk + chunk \<le> c_i64_max"
    using assms(6) by (simp add: algebra_simps)
  have bcmax: "hpmv_batch_count a \<le> c_i64_max"
    using above_chunks [OF assms(1), of "hpmv_batch_count a"] assms(5,6) by simp
  have call: "hpmv_chunk_call chunk a (int k * chunk) = hpmv_chunk_spec chunk a (int k * chunk)"
    using assms(1-4) nonneg b bcmax by (rule hpmv_chunk_call_eq)
  have "int64_wrap (int k * chunk + chunk) = int k * chunk + chunk"
    using nx nonneg assms(1) by (intro int64_wrap_id) linarith+
  then have wrap: "int64_wrap (int k * chunk + chunk) = int (Suc k) * chunk"
    by (simp add: algebra_simps)
  have IH: "hpmv_batch_loop chunk launcher a (int (Suc k) * chunk) dev' =
         Some (run_chunks launcher
                (map (hpmv_chunk_spec chunk a) (map (\<lambda>k. int k * chunk) [Suc k..<m])) dev')"
    for dev'
    using Suc.hyps(1) [of "Suc k" dev'] Suc.hyps(2) lt by simp
  show ?case
    apply (subst hpmv_batch_loop.simps)
    apply (simp only: b if_True call wrap IH Let_def)
    apply (simp add: upt_conv_Cons [OF lt] Let_def)
    done
qed

lemma hpmv_launcher_64_refines:
  assumes "0 < chunk" "chunk \<le> c_i32_max" "1 \<le> hpmv_n a" "hpmv_n a \<le> c_i32_max"
    "1 \<le> hpmv_batch_count a" "((hpmv_batch_count a - 1) div chunk + 1) * chunk \<le> c_i64_max"
  shows "rocblas_hpmv_launcher_64 chunk launcher a dev =
         Some (hpmv_launcher_chunked chunk launcher a dev)"
proof -
  let ?m = "nat ((hpmv_batch_count a + chunk - 1) div chunk)"
  have "0 \<le> (hpmv_batch_count a - 1) div chunk"
    using assms by (simp add: pos_imp_zdiv_nonneg_iff)
  then have "int ?m * chunk \<le> c_i64_max"
    using assms by (simp add: chunk_count_eq)
  from hpmv_batch_loop_chunks [OF assms(1-4) refl this, of 0 launcher dev]
  show ?thesis using assms
    by (simp add: rocblas_hpmv_launcher_64_def hpmv_launcher_chunked_def hpmv_chunk_bases_def)
qed

subsection \<open>The chunks\<close>

lemma hpmv_chunk_bases_sorted:
  assumes "0 < chunk"
  shows "sorted_wrt (<) (hpmv_chunk_bases chunk bc)"
  using assms by (simp add: hpmv_chunk_bases_def sorted_wrt_map sorted_wrt_upt
      sorted_wrt_mono_rel [of _ "(<)"])

lemma hpmv_chunk_bases_bounds:
  assumes "0 < chunk" "b \<in> set (hpmv_chunk_bases chunk bc)"
  shows "0 \<le> b" "b < bc" "1 \<le> min (bc - b) chunk" "min (bc - b) chunk \<le> chunk"
proof -
  from assms(2) obtain k where k: "k < nat ((bc + chunk - 1) div chunk)" "b = int k * chunk"
    by (auto simp: hpmv_chunk_bases_def)
  show "0 \<le> b" using k assms(1) by simp
  show "b < bc" using below_chunks [OF assms(1) k(1)] k(2) by simp
  then show "1 \<le> min (bc - b) chunk" using assms(1) by simp
  show "min (bc - b) chunk \<le> chunk" by simp
qed

lemma hpmv_chunk_sizes_prefix:
  assumes "0 < chunk" "j \<le> nat ((bc + chunk - 1) div chunk)" "0 \<le> bc"
  shows "(\<Sum>k\<leftarrow>[0..<j]. min (bc - int k * chunk) chunk) = min bc (int j * chunk)"
  using assms(2)
proof (induction j)
  case 0
  then show ?case
    using assms(3) by simp
next
  case (Suc j)
  then have "j < nat ((bc + chunk - 1) div chunk)" by simp
  from below_chunks [OF assms(1) this] have "int j * chunk < bc" .
  then show ?case using Suc by (simp add: algebra_simps min_def)
qed

lemma hpmv_chunk_sizes_sum:
  assumes "0 < chunk" "0 \<le> bc"
  shows "(\<Sum>b\<leftarrow>hpmv_chunk_bases chunk bc. min (bc - b) chunk) = bc"
proof -
  have "(\<Sum>b\<leftarrow>hpmv_chunk_bases chunk bc. min (bc - b) chunk)
        = (\<Sum>k\<leftarrow>[0..<nat ((bc + chunk - 1) div chunk)]. min (bc - int k * chunk) chunk)"
    by (simp add: hpmv_chunk_bases_def comp_def)
  also have "\<dots> = min bc (int (nat ((bc + chunk - 1) div chunk)) * chunk)"
    by (rule hpmv_chunk_sizes_prefix [OF assms(1) order_refl assms(2)])
  also have "\<dots> = bc" using above_chunks [OF assms(1), of bc] by simp
  finally show ?thesis .
qed

subsection \<open>Stopping at the first failure\<close>

lemma run_chunks_traced:
  "run_chunks (hpmv_traced_launcher f) cs calls =
     (case find (\<lambda>c. f c \<noteq> rocblas_status_success) cs of
        None \<Rightarrow> (rocblas_status_success, calls @ cs)
      | Some c \<Rightarrow> (f c, calls @ takeWhile (\<lambda>c. f c = rocblas_status_success) cs @ [c]))"
  by (induction cs arbitrary: calls)
    (simp_all add: hpmv_traced_launcher_def Let_def split: option.splits)

lemma run_chunks_always_success:
  "run_chunks hpmv_always_success cs dev = (rocblas_status_success, dev)"
  by (induction cs) (simp_all add: hpmv_always_success_def)

lemma hpmv_batch_loop_no_return:
  assumes "hpmv_batch_loop chunk launcher a b dev = Some r"
  shows "\<not> (even chunk \<and> launcher = hpmv_always_success \<and> hpmv_batch_count a = c_i64_max
            \<and> even b \<and> b \<le> c_i64_max)"
proof (rule hpmv_batch_loop.raw_induct [where P = "\<lambda>chunk launcher a b dev r.
    \<not> (even chunk \<and> launcher = hpmv_always_success \<and> hpmv_batch_count a = c_i64_max
            \<and> even b \<and> b \<le> c_i64_max)", OF _ assms], goal_cases)
  case (1 f chunk launcher a b dev r)
  show ?case
  proof
    assume inv: "even chunk \<and> launcher = hpmv_always_success \<and> hpmv_batch_count a = c_i64_max
            \<and> even b \<and> b \<le> c_i64_max"
    then have "b \<noteq> c_i64_max" by (auto simp: c_i64_max_def)
    with inv have lt: "b < hpmv_batch_count a" by simp
    from 1(2) lt inv have "f chunk launcher a (int64_wrap (b + chunk)) dev = Some r"
      by (simp add: hpmv_always_success_def)
    from 1(1) [OF this] inv show False
      by (simp add: int64_wrap_even int64_wrap_range)
  qed
qed

text \<open>
  C1, as stated, fails at the largest batch count. With \<open>n_64 = 1\<close>,
  \<open>batch_count_64 = 2^63 - 1\<close>, a chunk size of 65520 and a 32-bit launcher that always
  succeeds, the chunked iteration of the specification returns success, but the source's
  loop does not: every chunk base is even and so stays below the odd batch count, and the
  addition \<open>b_base += c_i64_grid_YZ_chunk\<close> leaves the range of \<open>int64_t\<close> after the last
  chunk. With the wrap-around the shim never returns. The constant is declared outside
  the sources; the lemma before shows the same for every even chunk size.
\<close>

theorem hpmv_launcher_64_max_batch_count_counterexample:
  "1 \<le> hpmv_n (hpmv_example_args 1 9223372036854775807)
   \<and> hpmv_n (hpmv_example_args 1 9223372036854775807) \<le> c_i32_max
   \<and> 1 \<le> hpmv_batch_count (hpmv_example_args 1 9223372036854775807)
   \<and> hpmv_batch_count (hpmv_example_args 1 9223372036854775807) \<le> c_i64_max
   \<and> hpmv_launcher_chunked 65520 hpmv_always_success
        (hpmv_example_args 1 9223372036854775807) () = (rocblas_status_success, ())
   \<and> rocblas_hpmv_launcher_64 65520 hpmv_always_success
        (hpmv_example_args 1 9223372036854775807) () = None"
proof -
  let ?a = "hpmv_example_args 1 9223372036854775807"
  have "rocblas_hpmv_launcher_64 65520 hpmv_always_success ?a () = None"
  proof (cases "rocblas_hpmv_launcher_64 65520 hpmv_always_success ?a ()")
    case None
    then show ?thesis .
  next
    case (Some r)
    then have "hpmv_batch_loop 65520 hpmv_always_success ?a 0 () = Some r"
      by (simp add: rocblas_hpmv_launcher_64_def hpmv_example_args_def c_i32_max_def)
    from hpmv_batch_loop_no_return [OF this] show ?thesis
      by (simp add: hpmv_example_args_def c_i64_max_def)
  qed
  then show ?thesis
    by (simp add: hpmv_launcher_chunked_def run_chunks_always_success hpmv_example_args_def
        c_i32_max_def c_i64_max_def)
qed

text \<open>
  C1 (amended). Let the chunk size be 32-bit safe (\<open>0 < chunk \<le> INT32_MAX\<close>), let
  \<open>1 \<le> n_64 \<le> INT32_MAX\<close> and \<open>batch_count_64 \<ge> 1\<close>, and let the last chunk base plus the
  chunk size stay within \<open>int64_t\<close> (\<open>((batch_count_64 - 1) div chunk + 1) * chunk \<le> INT64_MAX\<close>).
  Then \<open>rocblas_hpmv_launcher_64\<close> returns, and returns what iterating the 32-bit launcher
  over the chunks returns: the chunk bases are \<open>0, chunk, 2 * chunk, ...\<close> in increasing
  order, all below \<open>batch_count_64\<close>; the call for the base \<open>b\<close> has
  \<open>min (batch_count_64 - b) chunk\<close> batches, between 1 and \<open>chunk\<close>, and the pointers
  \<open>AP\<close>, \<open>x\<close>, \<open>y\<close> advanced by \<open>b\<close> times \<open>strideA\<close>, \<open>stridex\<close>, \<open>stridey\<close>; the chunks
  cover \<open>batch_count_64\<close> batches in all; and the iteration stops at the first status that
  is not success and returns it, so that with a launcher that records its calls the result
  is success with every chunk launched, or the first failing chunk's status with no chunk
  launched after it.
\<close>

theorem hpmv_launcher_64_chunked:
  assumes "0 < chunk" "chunk \<le> c_i32_max" "1 \<le> hpmv_n a" "hpmv_n a \<le> c_i32_max"
    "1 \<le> hpmv_batch_count a" "((hpmv_batch_count a - 1) div chunk + 1) * chunk \<le> c_i64_max"
  shows "rocblas_hpmv_launcher_64 chunk launcher a dev =
           Some (run_chunks launcher
             (map (hpmv_chunk_spec chunk a) (hpmv_chunk_bases chunk (hpmv_batch_count a))) dev)
       \<and> rocblas_hpmv_launcher_64 chunk (hpmv_traced_launcher f) a [] =
           Some (case find (\<lambda>c. f c \<noteq> rocblas_status_success)
                   (map (hpmv_chunk_spec chunk a) (hpmv_chunk_bases chunk (hpmv_batch_count a))) of
                 None \<Rightarrow> (rocblas_status_success,
                   map (hpmv_chunk_spec chunk a) (hpmv_chunk_bases chunk (hpmv_batch_count a)))
               | Some c \<Rightarrow> (f c,
                   takeWhile (\<lambda>c. f c = rocblas_status_success)
                     (map (hpmv_chunk_spec chunk a)
                       (hpmv_chunk_bases chunk (hpmv_batch_count a))) @ [c]))
       \<and> hpmv_chunk_bases chunk (hpmv_batch_count a) =
           map (\<lambda>k. int k * chunk) [0..<nat ((hpmv_batch_count a - 1) div chunk + 1)]
       \<and> sorted_wrt (<) (hpmv_chunk_bases chunk (hpmv_batch_count a))
       \<and> (\<forall>b \<in> set (hpmv_chunk_bases chunk (hpmv_batch_count a)).
            0 \<le> b \<and> b < hpmv_batch_count a
            \<and> hpmv_chunk_spec chunk a b =
                a\<lparr>hpmv_AP := hpmv_AP a + b * hpmv_strideA a,
                  hpmv_x := hpmv_x a + b * hpmv_stridex a,
                  hpmv_y := hpmv_y a + b * hpmv_stridey a,
                  hpmv_batch_count := min (hpmv_batch_count a - b) chunk\<rparr>
            \<and> 1 \<le> hpmv_batch_count (hpmv_chunk_spec chunk a b)
            \<and> hpmv_batch_count (hpmv_chunk_spec chunk a b) \<le> chunk)
       \<and> (\<Sum>b\<leftarrow>hpmv_chunk_bases chunk (hpmv_batch_count a).
            hpmv_batch_count (hpmv_chunk_spec chunk a b)) = hpmv_batch_count a"
proof -
  let ?bases = "hpmv_chunk_bases chunk (hpmv_batch_count a)"
  have r: "rocblas_hpmv_launcher_64 chunk l a d =
           Some (run_chunks l (map (hpmv_chunk_spec chunk a) ?bases) d)" for l d
    using hpmv_launcher_64_refines [OF assms] by (simp add: hpmv_launcher_chunked_def)
  have t: "rocblas_hpmv_launcher_64 chunk (hpmv_traced_launcher f) a [] =
           Some (case find (\<lambda>c. f c \<noteq> rocblas_status_success)
                   (map (hpmv_chunk_spec chunk a) ?bases) of
                 None \<Rightarrow> (rocblas_status_success, map (hpmv_chunk_spec chunk a) ?bases)
               | Some c \<Rightarrow> (f c,
                   takeWhile (\<lambda>c. f c = rocblas_status_success)
                     (map (hpmv_chunk_spec chunk a) ?bases) @ [c]))"
    by (simp add: r run_chunks_traced split: option.splits)
  have e: "?bases = map (\<lambda>k. int k * chunk) [0..<nat ((hpmv_batch_count a - 1) div chunk + 1)]"
    using assms(1) by (simp add: hpmv_chunk_bases_def chunk_count_eq)
  have s: "sorted_wrt (<) ?bases"
    using assms(1) by (rule hpmv_chunk_bases_sorted)
  have b: "\<forall>b \<in> set ?bases.
            0 \<le> b \<and> b < hpmv_batch_count a
            \<and> hpmv_chunk_spec chunk a b =
                a\<lparr>hpmv_AP := hpmv_AP a + b * hpmv_strideA a,
                  hpmv_x := hpmv_x a + b * hpmv_stridex a,
                  hpmv_y := hpmv_y a + b * hpmv_stridey a,
                  hpmv_batch_count := min (hpmv_batch_count a - b) chunk\<rparr>
            \<and> 1 \<le> hpmv_batch_count (hpmv_chunk_spec chunk a b)
            \<and> hpmv_batch_count (hpmv_chunk_spec chunk a b) \<le> chunk"
    using hpmv_chunk_bases_bounds [OF assms(1)] by (simp add: hpmv_chunk_spec_def)
  have c: "(\<Sum>b\<leftarrow>?bases. hpmv_batch_count (hpmv_chunk_spec chunk a b)) = hpmv_batch_count a"
    using hpmv_chunk_sizes_sum [OF assms(1), of "hpmv_batch_count a"] assms(5)
    by (simp add: hpmv_chunk_spec_def)
  show ?thesis
    by (rule conjI [OF r conjI [OF t conjI [OF e conjI [OF s conjI [OF b c]]]]])
qed

text \<open>
  An instance: 150000 batches in chunks of 65520 are three calls of 65520, 65520 and 18960
  batches at the bases 0, 65520 and 131040; when the second call fails, its status is
  returned and the third call is not made.
\<close>

theorem hpmv_launcher_64_chunked_witness:
  "rocblas_hpmv_launcher_64 65520 (hpmv_traced_launcher (\<lambda>c. rocblas_status_success))
     (hpmv_example_args 4 150000) [] =
     Some (rocblas_status_success,
       [(hpmv_example_args 4 65520)\<lparr>hpmv_AP := 1000, hpmv_x := 2000, hpmv_y := 3000\<rparr>,
        (hpmv_example_args 4 65520)\<lparr>hpmv_AP := 656200, hpmv_x := 264080, hpmv_y := 265080\<rparr>,
        (hpmv_example_args 4 18960)\<lparr>hpmv_AP := 1311400, hpmv_x := 526160, hpmv_y := 527160\<rparr>])
   \<and> rocblas_hpmv_launcher_64 65520 (hpmv_traced_launcher hpmv_fail_late)
     (hpmv_example_args 4 150000) [] =
     Some (rocblas_status_memory_error,
       [(hpmv_example_args 4 65520)\<lparr>hpmv_AP := 1000, hpmv_x := 2000, hpmv_y := 3000\<rparr>,
        (hpmv_example_args 4 65520)\<lparr>hpmv_AP := 656200, hpmv_x := 264080, hpmv_y := 265080\<rparr>])"
proof -
  have h: "0 < (65520::int)" "65520 \<le> c_i32_max" "1 \<le> hpmv_n (hpmv_example_args 4 150000)"
    "hpmv_n (hpmv_example_args 4 150000) \<le> c_i32_max"
    "1 \<le> hpmv_batch_count (hpmv_example_args 4 150000)"
    "((hpmv_batch_count (hpmv_example_args 4 150000) - 1) div 65520 + 1) * 65520 \<le> c_i64_max"
    by (simp_all add: hpmv_example_args_def c_i32_max_def c_i64_max_def)
  have bases: "hpmv_chunk_bases 65520 150000 = [0, 65520, 131040]"
    by (simp add: hpmv_chunk_bases_def upt_rec)
  have bc: "hpmv_batch_count (hpmv_example_args 4 150000) = 150000"
    by (simp add: hpmv_example_args_def)
  note t = hpmv_launcher_64_chunked [OF h, THEN conjunct2, THEN conjunct1]
  have ok: "rocblas_hpmv_launcher_64 65520 (hpmv_traced_launcher (\<lambda>c. rocblas_status_success))
     (hpmv_example_args 4 150000) [] =
     Some (rocblas_status_success,
       [(hpmv_example_args 4 65520)\<lparr>hpmv_AP := 1000, hpmv_x := 2000, hpmv_y := 3000\<rparr>,
        (hpmv_example_args 4 65520)\<lparr>hpmv_AP := 656200, hpmv_x := 264080, hpmv_y := 265080\<rparr>,
        (hpmv_example_args 4 18960)\<lparr>hpmv_AP := 1311400, hpmv_x := 526160, hpmv_y := 527160\<rparr>])"
    unfolding t [of "\<lambda>c. rocblas_status_success"] bc bases
    by (simp add: hpmv_chunk_spec_def hpmv_example_args_def)
  have late: "rocblas_hpmv_launcher_64 65520 (hpmv_traced_launcher hpmv_fail_late)
     (hpmv_example_args 4 150000) [] =
     Some (rocblas_status_memory_error,
       [(hpmv_example_args 4 65520)\<lparr>hpmv_AP := 1000, hpmv_x := 2000, hpmv_y := 3000\<rparr>,
        (hpmv_example_args 4 65520)\<lparr>hpmv_AP := 656200, hpmv_x := 264080, hpmv_y := 265080\<rparr>])"
    unfolding t [of hpmv_fail_late] bc bases
    by (simp add: hpmv_chunk_spec_def hpmv_example_args_def hpmv_fail_late_def)
  from ok late show ?thesis by (rule conjI)
qed

text \<open>
  C8. When \<open>n_64\<close> or \<open>batch_count_64\<close> is zero, \<open>rocblas_hpmv_launcher_64\<close> returns
  \<open>rocblas_status_success\<close> and leaves the device as it was, whatever the 32-bit launcher
  is: the launcher is not called, and a launcher that records its calls records none.
\<close>

theorem hpmv_launcher_64_quick_return:
  assumes "hpmv_n a = 0 \<or> hpmv_batch_count a = 0"
  shows "rocblas_hpmv_launcher_64 chunk launcher a dev = Some (rocblas_status_success, dev)
       \<and> rocblas_hpmv_launcher_64 chunk (hpmv_traced_launcher f) a [] =
           Some (rocblas_status_success, [])"
  using assms by (simp add: rocblas_hpmv_launcher_64_def)

theorem hpmv_launcher_64_quick_return_witness:
  "rocblas_hpmv_launcher_64 65520 (hpmv_traced_launcher hpmv_fail_late)
     (hpmv_example_args 0 150000) [] = Some (rocblas_status_success, [])
   \<and> rocblas_hpmv_launcher_64 65520 (hpmv_traced_launcher hpmv_fail_late)
     (hpmv_example_args 4 0) [] = Some (rocblas_status_success, [])"
proof -
  have z1: "hpmv_n (hpmv_example_args 0 150000) = 0 \<or> hpmv_batch_count (hpmv_example_args 0 150000) = 0"
    by (simp add: hpmv_example_args_def)
  have z2: "hpmv_n (hpmv_example_args 4 0) = 0 \<or> hpmv_batch_count (hpmv_example_args 4 0) = 0"
    by (simp add: hpmv_example_args_def)
  show ?thesis
    using hpmv_launcher_64_quick_return [OF z1, of 65520 hpmv_always_success "()" hpmv_fail_late]
      hpmv_launcher_64_quick_return [OF z2, of 65520 hpmv_always_success "()" hpmv_fail_late]
    by simp
qed

text \<open>
  C9, as stated, fails when the batch count is zero: the quick return comes first, so
  \<open>n_64 = 2^31\<close> with \<open>batch_count_64 = 0\<close> returns \<open>rocblas_status_success\<close>.
\<close>

theorem hpmv_launcher_64_large_n_counterexample:
  "c_i32_max < hpmv_n (hpmv_example_args 2147483648 0)
   \<and> rocblas_hpmv_launcher_64 65520 (hpmv_traced_launcher hpmv_fail_late)
        (hpmv_example_args 2147483648 0) [] = Some (rocblas_status_success, [])"
  by (simp add: rocblas_hpmv_launcher_64_def hpmv_example_args_def c_i32_max_def)

text \<open>
  C9 (amended). When \<open>n_64 > c_i32_max\<close> and \<open>batch_count_64\<close> is not zero,
  \<open>rocblas_hpmv_launcher_64\<close> returns \<open>rocblas_status_invalid_size\<close> and leaves the device as
  it was: the 32-bit launcher is not called, and a launcher that records its calls records
  none.
\<close>

theorem hpmv_launcher_64_large_n:
  assumes "c_i32_max < hpmv_n a" "hpmv_batch_count a \<noteq> 0"
  shows "rocblas_hpmv_launcher_64 chunk launcher a dev = Some (rocblas_status_invalid_size, dev)
       \<and> rocblas_hpmv_launcher_64 chunk (hpmv_traced_launcher f) a [] =
           Some (rocblas_status_invalid_size, [])"
  using assms by (auto simp: rocblas_hpmv_launcher_64_def c_i32_max_def)

theorem hpmv_launcher_64_large_n_witness:
  "rocblas_hpmv_launcher_64 65520 (hpmv_traced_launcher hpmv_fail_late)
     (hpmv_example_args 2147483648 150000) [] = Some (rocblas_status_invalid_size, [])"
proof -
  have h: "c_i32_max < hpmv_n (hpmv_example_args 2147483648 150000)"
    "hpmv_batch_count (hpmv_example_args 2147483648 150000) \<noteq> 0"
    by (simp_all add: hpmv_example_args_def c_i32_max_def)
  show ?thesis
    using hpmv_launcher_64_large_n [OF h, of 65520 hpmv_always_success "()" hpmv_fail_late]
    by simp
qed

section \<open>Properties of \<open>rocblas_trtri_strided_batched\<close>\<close>

lemma trtri_then_Inr [simp]:
  "trtri_then (Inr v, evs) k = (fst (k v), evs @ snd (k v))"
  by (simp add: trtri_then_def Let_def)

lemma trtri_then_Inl [simp]:
  "trtri_then (Inl e, evs) k = (Inl e, evs)"
  by (simp add: trtri_then_def)

lemma trtri_catch_all_status:
  "\<exists>status. fst (trtri_catch_all env body) = Inr status"
  by (cases "fst body") (simp_all add: trtri_catch_all_def)

lemma trtri_catch_all_events [simp]:
  "snd (trtri_catch_all env body) = snd body"
  by (cases "fst body") (simp_all add: trtri_catch_all_def)

text \<open>
  C2. Each of the four C entry points ends with a status and never with an exception, for
  every environment, handle and argument list: when the implementation ends with a status
  the entry point returns it, and when a call inside the implementation throws, the entry
  point returns the status \<open>exception_to_rocblas_status\<close> gives for the exception. The
  calls made are those of the implementation, which each entry point runs with \<open>NB = 16\<close>.
\<close>

theorem trtri_entry_points_catch:
  "(\<exists>status. fst (rocblas_strtri_strided_batched env handle uplo diag n A lda bsa invA ldinvA
        bsinvA batch_count) = Inr status)
   \<and> (\<exists>status. fst (rocblas_dtrtri_strided_batched env handle uplo diag n A lda bsa invA ldinvA
        bsinvA batch_count) = Inr status)
   \<and> (\<exists>status. fst (rocblas_ctrtri_strided_batched env handle uplo diag n A lda bsa invA ldinvA
        bsinvA batch_count) = Inr status)
   \<and> (\<exists>status. fst (rocblas_ztrtri_strided_batched env handle uplo diag n A lda bsa invA ldinvA
        bsinvA batch_count) = Inr status)
   \<and> rocblas_strtri_strided_batched env handle uplo diag n A lda bsa invA ldinvA bsinvA
        batch_count =
      (case fst (rocblas_trtri_strided_batched_impl env 16 T_float handle uplo diag n A lda bsa
                  invA ldinvA bsinvA batch_count) of
         Inl e \<Rightarrow> Inr (exception_to_rocblas_status env e)
       | Inr status \<Rightarrow> Inr status,
       snd (rocblas_trtri_strided_batched_impl env 16 T_float handle uplo diag n A lda bsa
             invA ldinvA bsinvA batch_count))
   \<and> rocblas_dtrtri_strided_batched env handle uplo diag n A lda bsa invA ldinvA bsinvA
        batch_count =
      (case fst (rocblas_trtri_strided_batched_impl env 16 T_double handle uplo diag n A lda bsa
                  invA ldinvA bsinvA batch_count) of
         Inl e \<Rightarrow> Inr (exception_to_rocblas_status env e)
       | Inr status \<Rightarrow> Inr status,
       snd (rocblas_trtri_strided_batched_impl env 16 T_double handle uplo diag n A lda bsa
             invA ldinvA bsinvA batch_count))
   \<and> rocblas_ctrtri_strided_batched env handle uplo diag n A lda bsa invA ldinvA bsinvA
        batch_count =
      (case fst (rocblas_trtri_strided_batched_impl env 16 T_float_complex handle uplo diag n A
                  lda bsa invA ldinvA bsinvA batch_count) of
         Inl e \<Rightarrow> Inr (exception_to_rocblas_status env e)
       | Inr status \<Rightarrow> Inr status,
       snd (rocblas_trtri_strided_batched_impl env 16 T_float_complex handle uplo diag n A
             lda bsa invA ldinvA bsinvA batch_count))
   \<and> rocblas_ztrtri_strided_batched env handle uplo diag n A lda bsa invA ldinvA bsinvA
        batch_count =
      (case fst (rocblas_trtri_strided_batched_impl env 16 T_double_complex handle uplo diag n A
                  lda bsa invA ldinvA bsinvA batch_count) of
         Inl e \<Rightarrow> Inr (exception_to_rocblas_status env e)
       | Inr status \<Rightarrow> Inr status,
       snd (rocblas_trtri_strided_batched_impl env 16 T_double_complex handle uplo diag n A
             lda bsa invA ldinvA bsinvA batch_count))"
proof -
  have c: "trtri_catch_all env body =
      (case fst body of Inl e \<Rightarrow> Inr (exception_to_rocblas_status env e)
       | Inr status \<Rightarrow> Inr status, snd body)" for body :: "('a, 'b, rocblas_status) trtri_run"
    by (cases "fst body") (simp_all add: trtri_catch_all_def)
  show ?thesis
    unfolding rocblas_strtri_strided_batched_def rocblas_dtrtri_strided_batched_def
      rocblas_ctrtri_strided_batched_def rocblas_ztrtri_strided_batched_def Let_def
    by (intro conjI trtri_catch_all_status c)
qed

text \<open>
  An instance: with profile logging on, the logger of the example throws
  \<open>std::bad_alloc\<close>; the implementation ends with that exception, and the entry point
  returns the status the exception is translated to.
\<close>

lemma trtri_entry_point_catch_example:
  "fst (rocblas_trtri_strided_batched_impl trtri_example_env 16 T_float
          (Some (trtri_example_handle False {rocblas_layer_mode_log_profile}))
          rocblas_fill_upper rocblas_diagonal_unit 8 100 8 64 200 8 64 3) = Inl ''std::bad_alloc''
   \<and> rocblas_strtri_strided_batched trtri_example_env
          (Some (trtri_example_handle False {rocblas_layer_mode_log_profile}))
          rocblas_fill_upper rocblas_diagonal_unit 8 100 8 64 200 8 64 3 =
        (Inr rocblas_status_memory_error,
         [Ev_log_profile ''rocblas_strtri_strided_batched''
            (Trtri_args rocblas_fill_upper rocblas_diagonal_unit 8 100 8 64 200 8 64 3)])"
  by (simp add: rocblas_strtri_strided_batched_def rocblas_trtri_strided_batched_impl_def
      trtri_catch_all_def trtri_example_env_def trtri_example_handle_def)

text \<open>
  C3. Take a call of \<open>rocblas_trtri_strided_batched_impl\<close> with a handle that is not null
  and not in the mode of a device memory size query, whose logging (where the layer mode
  asks for it) returns, and whose argument check returns \<open>rocblas_status_continue\<close>. When
  \<open>n \<le> NB\<close> the run is: the logging, the argument check and one launch of
  \<open>rocblas_trtri_small\<close>, with no allocation, and its end is the launcher's. When \<open>n > NB\<close>
  the run is: the logging, the argument check, one \<open>device_malloc\<close> of
  \<open>rocblas_internal_trtri_temp_size<NB>(n, batch_count) * sizeof(T)\<close> bytes and, when the
  workspace is not null, one launch of \<open>rocblas_trtri_large\<close> with that workspace, whose
  end is the run's; when the workspace is null the run ends with
  \<open>rocblas_status_memory_error\<close> and no launch. Each C entry point runs the implementation
  with \<open>NB = 16\<close>.
\<close>

theorem trtri_impl_dispatch:
  assumes "handle = Some h" "\<not> is_device_memory_size_query h"
    "args = Trtri_args uplo diag n A lda bsa invA ldinvA bsinvA batch_count"
    "rocblas_layer_mode_log_trace \<in> layer_mode h \<Longrightarrow>
       log_trace env h (rocblas_trtri_name T) args = Inr ()"
    "rocblas_layer_mode_log_profile \<in> layer_mode h \<Longrightarrow>
       log_profile env h (rocblas_trtri_name T) args = Inr ()"
    "rocblas_trtri_arg_check env h uplo diag n A lda invA ldinvA batch_count =
       Inr rocblas_status_continue"
    "launch = Trtri_launch uplo diag n A 0 lda bsa 0 invA 0 ldinvA bsinvA 0 batch_count 1"
    "bytes = size_t_mult (rocblas_internal_trtri_temp_size env NB n batch_count) (sizeof_T T)"
    "logged =
       (if rocblas_layer_mode_log_trace \<in> layer_mode h
        then [Ev_log_trace (rocblas_trtri_name T) args] else []) @
       (if rocblas_layer_mode_log_profile \<in> layer_mode h
        then [Ev_log_profile (rocblas_trtri_name T) args] else [])"
  shows "rocblas_trtri_strided_batched_impl env NB T handle uplo diag n A lda bsa invA ldinvA
           bsinvA batch_count =
         (if n \<le> NB then
            (rocblas_trtri_small env NB T h launch,
             logged @ [Ev_arg_check, Ev_trtri_small launch])
          else
            (case device_malloc h bytes of
               Inl e \<Rightarrow> (Inl e, logged @ [Ev_arg_check, Ev_device_malloc bytes])
             | Inr None \<Rightarrow>
                 (Inr rocblas_status_memory_error,
                  logged @ [Ev_arg_check, Ev_device_malloc bytes])
             | Inr (Some w) \<Rightarrow>
                 (rocblas_trtri_large env NB T h launch w,
                  logged @ [Ev_arg_check, Ev_device_malloc bytes, Ev_trtri_large launch w])))
       \<and> rocblas_strtri_strided_batched env handle uplo diag n A lda bsa invA ldinvA bsinvA
           batch_count =
         trtri_catch_all env (rocblas_trtri_strided_batched_impl env 16 T_float handle uplo diag
           n A lda bsa invA ldinvA bsinvA batch_count)
       \<and> rocblas_dtrtri_strided_batched env handle uplo diag n A lda bsa invA ldinvA bsinvA
           batch_count =
         trtri_catch_all env (rocblas_trtri_strided_batched_impl env 16 T_double handle uplo
           diag n A lda bsa invA ldinvA bsinvA batch_count)
       \<and> rocblas_ctrtri_strided_batched env handle uplo diag n A lda bsa invA ldinvA bsinvA
           batch_count =
         trtri_catch_all env (rocblas_trtri_strided_batched_impl env 16 T_float_complex handle
           uplo diag n A lda bsa invA ldinvA bsinvA batch_count)
       \<and> rocblas_ztrtri_strided_batched env handle uplo diag n A lda bsa invA ldinvA bsinvA
           batch_count =
         trtri_catch_all env (rocblas_trtri_strided_batched_impl env 16 T_double_complex handle
           uplo diag n A lda bsa invA ldinvA bsinvA batch_count)"
proof -
  have entry: "rocblas_strtri_strided_batched env handle uplo diag n A lda bsa invA ldinvA bsinvA
           batch_count =
         trtri_catch_all env (rocblas_trtri_strided_batched_impl env 16 T_float handle uplo diag
           n A lda bsa invA ldinvA bsinvA batch_count)"
    "rocblas_dtrtri_strided_batched env handle uplo diag n A lda bsa invA ldinvA bsinvA
           batch_count =
         trtri_catch_all env (rocblas_trtri_strided_batched_impl env 16 T_double handle uplo
           diag n A lda bsa invA ldinvA bsinvA batch_count)"
    "rocblas_ctrtri_strided_batched env handle uplo diag n A lda bsa invA ldinvA bsinvA
           batch_count =
         trtri_catch_all env (rocblas_trtri_strided_batched_impl env 16 T_float_complex handle
           uplo diag n A lda bsa invA ldinvA bsinvA batch_count)"
    "rocblas_ztrtri_strided_batched env handle uplo diag n A lda bsa invA ldinvA bsinvA
           batch_count =
         trtri_catch_all env (rocblas_trtri_strided_batched_impl env 16 T_double_complex handle
           uplo diag n A lda bsa invA ldinvA bsinvA batch_count)"
    by (simp_all add: rocblas_strtri_strided_batched_def rocblas_dtrtri_strided_batched_def
        rocblas_ctrtri_strided_batched_def rocblas_ztrtri_strided_batched_def)
  have impl: "rocblas_trtri_strided_batched_impl env NB T handle uplo diag n A lda bsa invA ldinvA
           bsinvA batch_count =
         (if n \<le> NB then
            (rocblas_trtri_small env NB T h launch,
             logged @ [Ev_arg_check, Ev_trtri_small launch])
          else
            (case device_malloc h bytes of
               Inl e \<Rightarrow> (Inl e, logged @ [Ev_arg_check, Ev_device_malloc bytes])
             | Inr None \<Rightarrow>
                 (Inr rocblas_status_memory_error,
                  logged @ [Ev_arg_check, Ev_device_malloc bytes])
             | Inr (Some w) \<Rightarrow>
                 (rocblas_trtri_large env NB T h launch w,
                  logged @ [Ev_arg_check, Ev_device_malloc bytes, Ev_trtri_large launch w])))"
    using assms(4,5)
    unfolding rocblas_trtri_strided_batched_impl_def assms(1) assms(9)
    by (simp add: assms(2) assms(3) [symmetric] assms(6) assms(7) [symmetric]
        assms(8) [symmetric] Let_def split: sum.splits option.splits)
  from impl entry show ?thesis by (intro conjI)
qed

text \<open>
  Instances, with trace logging on: \<open>n = 8\<close> launches \<open>rocblas_trtri_small\<close>; \<open>n = 32\<close>
  with one batch allocates 2048 bytes and launches \<open>rocblas_trtri_large\<close> on the workspace;
  \<open>n = 32\<close> with three batches asks for 6144 bytes, which the example's handle refuses, and
  ends with \<open>rocblas_status_memory_error\<close> and no launch.
\<close>

theorem trtri_impl_dispatch_witness:
  "rocblas_trtri_strided_batched_impl trtri_example_env 16 T_float
     (Some (trtri_example_handle False {rocblas_layer_mode_log_trace}))
     rocblas_fill_upper rocblas_diagonal_unit 8 100 8 64 200 8 64 3 =
     (Inr rocblas_status_success,
      [Ev_log_trace ''rocblas_strtri_strided_batched''
         (Trtri_args rocblas_fill_upper rocblas_diagonal_unit 8 100 8 64 200 8 64 3),
       Ev_arg_check,
       Ev_trtri_small
         (Trtri_launch rocblas_fill_upper rocblas_diagonal_unit 8 100 0 8 64 0 200 0 8 64 0 3 1)])
   \<and> rocblas_trtri_strided_batched_impl trtri_example_env 16 T_float
     (Some (trtri_example_handle False {rocblas_layer_mode_log_trace}))
     rocblas_fill_upper rocblas_diagonal_unit 32 100 32 1024 200 32 1024 1 =
     (Inr rocblas_status_success,
      [Ev_log_trace ''rocblas_strtri_strided_batched''
         (Trtri_args rocblas_fill_upper rocblas_diagonal_unit 32 100 32 1024 200 32 1024 1),
       Ev_arg_check,
       Ev_device_malloc 2048,
       Ev_trtri_large
         (Trtri_launch rocblas_fill_upper rocblas_diagonal_unit 32 100 0 32 1024 0 200 0 32 1024
            0 1 1) 7000])
   \<and> rocblas_trtri_strided_batched_impl trtri_example_env 16 T_float
     (Some (trtri_example_handle False {rocblas_layer_mode_log_trace}))
     rocblas_fill_upper rocblas_diagonal_unit 32 100 32 1024 200 32 1024 3 =
     (Inr rocblas_status_memory_error,
      [Ev_log_trace ''rocblas_strtri_strided_batched''
         (Trtri_args rocblas_fill_upper rocblas_diagonal_unit 32 100 32 1024 200 32 1024 3),
       Ev_arg_check,
       Ev_device_malloc 6144])"
proof -
  let ?h = "trtri_example_handle False {rocblas_layer_mode_log_trace}"
  have q: "\<not> is_device_memory_size_query ?h"
    by (simp add: trtri_example_handle_def)
  have lt: "log_trace trtri_example_env ?h (rocblas_trtri_name T_float) args = Inr ()" for args
    by (simp add: trtri_example_env_def)
  have lp: "rocblas_layer_mode_log_profile \<in> layer_mode ?h \<Longrightarrow>
       log_profile trtri_example_env ?h (rocblas_trtri_name T_float) args = Inr ()" for args
    by (simp add: trtri_example_handle_def)
  have ac: "rocblas_trtri_arg_check trtri_example_env ?h rocblas_fill_upper rocblas_diagonal_unit
       nn 100 ld 200 ld bc = Inr rocblas_status_continue" if "0 \<le> nn" for nn ld bc
    using that by (simp add: trtri_example_env_def)
  note d = trtri_impl_dispatch [OF refl q refl lt lp ac refl refl refl, THEN conjunct1]
  have small: "rocblas_trtri_strided_batched_impl trtri_example_env 16 T_float (Some ?h)
     rocblas_fill_upper rocblas_diagonal_unit 8 100 8 64 200 8 64 3 =
     (Inr rocblas_status_success,
      [Ev_log_trace ''rocblas_strtri_strided_batched''
         (Trtri_args rocblas_fill_upper rocblas_diagonal_unit 8 100 8 64 200 8 64 3),
       Ev_arg_check,
       Ev_trtri_small
         (Trtri_launch rocblas_fill_upper rocblas_diagonal_unit 8 100 0 8 64 0 200 0 8 64 0 3 1)])"
    by (subst d) (simp_all add: trtri_example_env_def trtri_example_handle_def)
  have large: "rocblas_trtri_strided_batched_impl trtri_example_env 16 T_float (Some ?h)
     rocblas_fill_upper rocblas_diagonal_unit 32 100 32 1024 200 32 1024 1 =
     (Inr rocblas_status_success,
      [Ev_log_trace ''rocblas_strtri_strided_batched''
         (Trtri_args rocblas_fill_upper rocblas_diagonal_unit 32 100 32 1024 200 32 1024 1),
       Ev_arg_check,
       Ev_device_malloc 2048,
       Ev_trtri_large
         (Trtri_launch rocblas_fill_upper rocblas_diagonal_unit 32 100 0 32 1024 0 200 0 32 1024
            0 1 1) 7000])"
    by (subst d) (simp_all add: trtri_example_env_def trtri_example_handle_def size_t_mult_def)
  have nomem: "rocblas_trtri_strided_batched_impl trtri_example_env 16 T_float (Some ?h)
     rocblas_fill_upper rocblas_diagonal_unit 32 100 32 1024 200 32 1024 3 =
     (Inr rocblas_status_memory_error,
      [Ev_log_trace ''rocblas_strtri_strided_batched''
         (Trtri_args rocblas_fill_upper rocblas_diagonal_unit 32 100 32 1024 200 32 1024 3),
       Ev_arg_check,
       Ev_device_malloc 6144])"
    by (subst d) (simp_all add: trtri_example_env_def trtri_example_handle_def size_t_mult_def)
  from small large nomem show ?thesis by (intro conjI)
qed

text \<open>
  C4. A call of \<open>rocblas_trtri_strided_batched_impl\<close> with a handle that is not null and
  is in the mode of a device memory size query makes no logging call, no argument check,
  no allocation and no launch. When \<open>n \<le> NB\<close> or \<open>batch_count\<close> is zero it makes no call at
  all and returns \<open>rocblas_status_size_unchanged\<close>; otherwise its one call is
  \<open>handle->set_optimal_device_memory_size\<close> with
  \<open>rocblas_internal_trtri_temp_size<NB>(n, batch_count) * sizeof(T)\<close>, whose result it
  returns.
\<close>

theorem trtri_impl_size_query:
  assumes "handle = Some h" "is_device_memory_size_query h"
    "bytes = size_t_mult (rocblas_internal_trtri_temp_size env NB n batch_count) (sizeof_T T)"
  shows "rocblas_trtri_strided_batched_impl env NB T handle uplo diag n A lda bsa invA ldinvA
           bsinvA batch_count =
         (if n \<le> NB \<or> batch_count = 0 then (Inr rocblas_status_size_unchanged, [])
          else (set_optimal_device_memory_size h bytes, [Ev_set_optimal_device_memory_size bytes]))"
  using assms by (simp add: rocblas_trtri_strided_batched_impl_def Let_def)

theorem trtri_impl_size_query_witness:
  "rocblas_trtri_strided_batched_impl trtri_example_env 16 T_double
     (Some (trtri_example_handle True {rocblas_layer_mode_log_trace}))
     rocblas_fill_lower rocblas_diagonal_non_unit 8 100 8 64 200 8 64 3 =
     (Inr rocblas_status_size_unchanged, [])
   \<and> rocblas_trtri_strided_batched_impl trtri_example_env 16 T_double
     (Some (trtri_example_handle True {rocblas_layer_mode_log_trace}))
     rocblas_fill_lower rocblas_diagonal_non_unit 32 100 32 1024 200 32 1024 0 =
     (Inr rocblas_status_size_unchanged, [])
   \<and> rocblas_trtri_strided_batched_impl trtri_example_env 16 T_double
     (Some (trtri_example_handle True {rocblas_layer_mode_log_trace}))
     rocblas_fill_lower rocblas_diagonal_non_unit 32 100 32 1024 200 32 1024 3 =
     (Inr rocblas_status_size_increased, [Ev_set_optimal_device_memory_size 12288])"
proof -
  let ?h = "trtri_example_handle True {rocblas_layer_mode_log_trace}"
  have q: "is_device_memory_size_query ?h"
    by (simp add: trtri_example_handle_def)
  note s = trtri_impl_size_query [OF refl q refl]
  show ?thesis
    unfolding s
    by (simp add: trtri_example_env_def trtri_example_handle_def size_t_mult_def)
qed

section \<open>Properties of the test harnesses and of the modelled routines\<close>

lemma test_passes_Nil [simp]: "test_passes ck [] = True"
  by (simp add: test_passes_def)

lemma test_passes_Cons [simp]:
  "test_passes ck (s # steps) = (check_holds ck s \<and> test_passes ck steps)"
  by (simp add: test_passes_def)

lemma test_passes_append [simp]:
  "test_passes ck (xs @ ys) = (test_passes ck xs \<and> test_passes ck ys)"
  by (simp add: test_passes_def)

lemma rocblas_set_pointer_mode_simps [simp]:
  "fst (rocblas_set_pointer_mode h mode) = rocblas_status_success"
  "snd (rocblas_set_pointer_mode h mode) = h\<lparr>handle_pointer_mode := mode\<rparr>"
  by (simp_all add: rocblas_set_pointer_mode_def)

subsection \<open>The harnesses pass with the modelled routines\<close>










section \<open>Validation statuses\<close>



section \<open>Sizes and quick returns of spr2_batched\<close>



section \<open>dot and dotc with no elements\<close>



end
